theory Spec2Isabelle
  imports Main
begin

section \<open>The Number type of the example code\<close>

text \<open>
  The counter example of the README is TypeScript: its \<open>number\<close> is the Number type of
  ECMAScript, the binary64 format with round-to-nearest, ties-to-even arithmetic.
  Every finite binary64 value is a whole multiple of the smallest subnormal
  \<open>2 ^ -1074\<close>, so a finite value is kept as a sign and a magnitude counted in that
  unit. The sign (\<open>True\<close> for negative) is kept apart because the format has two zeros.
\<close>

datatype number = NaN | Infinity bool | Finite bool nat

text \<open>Number of binary digits of a magnitude.\<close>

fun bit_length :: "nat \<Rightarrow> nat" where
  "bit_length n = (if n = 0 then 0 else Suc (bit_length (n div 2)))"

declare bit_length.simps [simp del]

text \<open>
  Rounding of an exact magnitude to 53 significant bits, ties to even. Magnitudes below
  \<open>2 ^ 53\<close> units (the subnormals and the first binade of normals) are exact.
\<close>

definition round_magnitude :: "nat \<Rightarrow> nat" where
  "round_magnitude m =
     (if m < 2 ^ 53 then m
      else let p = bit_length m - 53;
               q = m div 2 ^ p;
               r = m mod 2 ^ p;
               h = 2 ^ (p - 1)
           in (if h < r \<or> (r = h \<and> odd q) then q + 1 else q) * 2 ^ p)"

text \<open>
  The largest finite value is \<open>(2 ^ 53 - 1) * 2 ^ 971\<close>, that is \<open>(2 ^ 53 - 1) * 2 ^ 2045\<close>
  units; a rounded magnitude of \<open>2 ^ 2098\<close> units or more is an overflow.
\<close>

definition overflow_threshold :: nat where
  "overflow_threshold = 2 ^ 2098"

text \<open>
  The Number nearest to an exact value \<open>k\<close> given in units; \<open>zero_negative\<close> is the sign
  an exact zero takes.
\<close>

definition number_of_exact :: "bool \<Rightarrow> int \<Rightarrow> number" where
  "number_of_exact zero_negative k =
     (if k = 0 then Finite zero_negative 0
      else let m = round_magnitude (nat \<bar>k\<bar>)
           in if overflow_threshold \<le> m then Infinity (k < 0) else Finite (k < 0) m)"

definition exact_units :: "bool \<Rightarrow> nat \<Rightarrow> int" where
  "exact_units negative m = (if negative then - int m else int m)"

text \<open>The value of an integer literal of the source, such as \<open>0\<close>, \<open>1\<close> or \<open>12\<close>.\<close>

definition number_of_int :: "int \<Rightarrow> number" where
  "number_of_int v = number_of_exact False (v * 2 ^ 1074)"

text \<open>
  \<open>Number::add\<close>: an exact zero sum is \<open>-0\<close> only when both operands are \<open>-0\<close>;
  infinities of opposite sign give \<open>NaN\<close>.
\<close>

fun number_add :: "number \<Rightarrow> number \<Rightarrow> number" where
  "number_add NaN y = NaN"
| "number_add x NaN = NaN"
| "number_add (Infinity a) (Infinity b) = (if a = b then Infinity a else NaN)"
| "number_add (Infinity a) (Finite sb mb) = Infinity a"
| "number_add (Finite sa ma) (Infinity b) = Infinity b"
| "number_add (Finite sa ma) (Finite sb mb) =
     number_of_exact (sa \<and> sb) (exact_units sa ma + exact_units sb mb)"

fun number_unaryMinus :: "number \<Rightarrow> number" where
  "number_unaryMinus NaN = NaN"
| "number_unaryMinus (Infinity a) = Infinity (\<not> a)"
| "number_unaryMinus (Finite sa ma) = Finite (\<not> sa) ma"

text \<open>\<open>Number::subtract\<close> is addition of the negated right operand.\<close>

definition number_subtract :: "number \<Rightarrow> number \<Rightarrow> number" where
  "number_subtract x y = number_add x (number_unaryMinus y)"

text \<open>
  The values of the binary64 format among the representations: a finite magnitude is
  below the overflow threshold and has at most 53 significant bits.
\<close>

fun is_binary64 :: "number \<Rightarrow> bool" where
  "is_binary64 NaN = True"
| "is_binary64 (Infinity a) = True"
| "is_binary64 (Finite sa ma) =
     (ma < overflow_threshold \<and>
      (if ma < 2 ^ 53 then True else ma mod 2 ^ (bit_length ma - 53) = 0))"

section \<open>The counter slice of the README\<close>

text \<open>
  \<^verbatim>\<open>
  export interface CounterState {
    value: number
  }
  const initialState: CounterState = {
    value: 0,
  }
  \<close>
  The field \<open>value\<close> is written \<open>value_field\<close> here, and the \<open>type\<close> of an action
  \<open>type_field\<close>, since both words are reserved in Isabelle.
\<close>

record CounterState =
  value_field :: number


text \<open>
  The action handed to a case reducer: of the library's \<open>PayloadAction\<close> only the
  \<open>type\<close> tag and the \<open>payload\<close> are fields.
\<close>

record 'p PayloadAction =
  type_field :: string
  payload :: 'p

text \<open>
  The case reducers. Each assigns to the \<open>value\<close> field of the draft state it is
  given and returns nothing; the model returns the updated state.
  \<^verbatim>\<open>
    increment: (state) => {
      state.value += 1
    },
    decrement: (state) => {
      state.value -= 1
    },
    incrementByAmount: (state, action: PayloadAction<number>) => {
      state.value += action.payload
    },
  \<close>
\<close>

definition increment :: "CounterState \<Rightarrow> CounterState" where
  "increment state =
     state\<lparr>value_field := number_add (value_field state) (number_of_int 1)\<rparr>"

definition decrement :: "CounterState \<Rightarrow> CounterState" where
  "decrement state =
     state\<lparr>value_field := number_subtract (value_field state) (number_of_int 1)\<rparr>"

definition incrementByAmount :: "CounterState \<Rightarrow> number PayloadAction \<Rightarrow> CounterState" where
  "incrementByAmount state action =
     state\<lparr>value_field := number_add (value_field state) (payload action)\<rparr>"

section \<open>The linter configuration\<close>

text \<open>
  The values a configuration module can export: the literals of the language, arrays,
  objects (their properties in source order) and functions.
\<close>

datatype js_value =
    JBool bool
  | JNum number
  | JStr string
  | JArr "js_value list"
  | JObj "(string \<times> js_value) list"
  | JFun

text \<open>The object literal assigned to \<open>module.exports\<close> in \<open>.eslintrc.js\<close>.\<close>

definition module_exports :: js_value where
  "module_exports = JObj
     [(''root'', JBool True),
      (''env'', JObj
         [(''browser'', JBool True),
          (''es2021'', JBool True)]),
      (''extends'', JArr
         [JStr ''react-app'',
          JStr ''react-app/jest'',
          JStr ''plugin:react/recommended'',
          JStr ''eslint:recommended'',
          JStr ''plugin:@typescript-eslint/eslint-recommended'',
          JStr ''plugin:@typescript-eslint/recommended'',
          JStr ''google'',
          JStr ''prettier'']),
      (''parser'', JStr ''@typescript-eslint/parser''),
      (''parserOptions'', JObj
         [(''ecmaFeatures'', JObj
             [(''jsx'', JBool True)]),
          (''ecmaVersion'', JNum (number_of_int 12)),
          (''sourceType'', JStr ''module'')]),
      (''plugins'', JArr [JStr ''react'', JStr ''@typescript-eslint'', JStr ''prettier'']),
      (''rules'', JObj
         [(''react/react-in-jsx-scope'', JStr ''off''),
          (''require-jsdoc'', JStr ''off''),
          (''no-console'', JNum (number_of_int 1)),
          (''prettier/prettier'', JNum (number_of_int 2)),
          (''linebreak-style'', JStr ''off'')])]"

text \<open>Property access: the properties of an object, and one property by name.\<close>

fun properties :: "js_value \<Rightarrow> (string \<times> js_value) list" where
  "properties (JObj ps) = ps"
| "properties v = []"

definition property :: "js_value \<Rightarrow> string \<Rightarrow> js_value option" where
  "property v name = map_of (properties v) name"

definition config_extends :: "js_value option" where
  "config_extends = property module_exports ''extends''"

definition config_rules :: "(string \<times> js_value) list" where
  "config_rules = (case property module_exports ''rules'' of
                     Some v \<Rightarrow> properties v
                   | None \<Rightarrow> [])"

text \<open>
  The severity a rule entry sets, as the comments of the file read the values:
  \<open>'off'\<close> disables, \<open>1\<close> "Means warning", \<open>2\<close> "Means error".
\<close>

datatype severity = Off | Warning | Error

definition rule_severity :: "js_value \<Rightarrow> severity option" where
  "rule_severity v =
     (if v = JStr ''off'' then Some Off
      else if v = JNum (number_of_int 1) then Some Warning
      else if v = JNum (number_of_int 2) then Some Error
      else None)"

definition rules_with :: "severity \<Rightarrow> string list" where
  "rules_with s = map fst (filter (\<lambda>(name, v). rule_severity v = Some s) config_rules)"







section \<open>The root state of the store\<close>

text \<open>
  \<^verbatim>\<open>
  export const store = configureStore({
    reducer: {
      counter: counterReducer
    }
  });

  export type AppDispatch = typeof store.dispatch;
  export type RootState = ReturnType<typeof store.getState>;
  export type AppThunk<ReturnType = void> = ThunkAction< ... >;
  \<close>
  The state of the store has one property for each key of the \<open>reducer\<close> object, here
  the counter state under \<open>counter\<close>. The second listing of \<open>store.ts\<close> adds the state
  of the API slice under a second key; that state is the library's, and a root state
  with it is an extension of this record. The Counter component reads the counter with
  the selector \<^verbatim>\<open>(state: RootState) => state.counter.value\<close>, whose result it names
  \<open>count\<close>.
\<close>

record RootState =
  counter :: CounterState



section \<open>The case reducers at run time\<close>

text \<open>
  The types of the case reducers are erased when they run: a case reducer is then a
  JavaScript function on whatever values it is given, and two of the steps of
  \<open>state.value += 1\<close> can throw. Reading or writing a property throws a \<open>TypeError\<close>
  when the base is \<open>undefined\<close> or \<open>null\<close>; the arithmetic operator throws a
  \<open>TypeError\<close> on a Symbol and when one operand is a BigInt and the other a Number.

  The values modelled are the primitive values other than strings, and objects whose
  properties hold such values. A string, or an object, as an operand makes \<open>+\<close> a
  concatenation; neither can occur where the declared types hold.
\<close>

datatype js_error = TypeError

datatype js_primitive = Undefined | Null | Boolean bool | Number number | BigInt int | Symbol

datatype js_base = BaseUndefined | BaseNull | BaseObject "(string \<times> js_primitive) list"

text \<open>
  \<open>GetValue\<close> of a property reference: a missing property reads as \<open>undefined\<close>.
\<close>

fun GetValue :: "js_base \<Rightarrow> string \<Rightarrow> js_error + js_primitive" where
  "GetValue BaseUndefined name = Inl TypeError"
| "GetValue BaseNull name = Inl TypeError"
| "GetValue (BaseObject ps) name =
     Inr (case map_of ps name of None \<Rightarrow> Undefined | Some v \<Rightarrow> v)"

text \<open>
  \<open>PutValue\<close> on a property reference: an existing property keeps its place, a new one
  is added last.
\<close>

fun set_property :: "string \<Rightarrow> js_primitive \<Rightarrow> (string \<times> js_primitive) list
    \<Rightarrow> (string \<times> js_primitive) list" where
  "set_property name v [] = [(name, v)]"
| "set_property name v (p # ps) =
     (if fst p = name then (name, v) # ps else p # set_property name v ps)"

fun PutValue :: "js_base \<Rightarrow> string \<Rightarrow> js_primitive \<Rightarrow> js_error + js_base" where
  "PutValue BaseUndefined name v = Inl TypeError"
| "PutValue BaseNull name v = Inl TypeError"
| "PutValue (BaseObject ps) name v = Inr (BaseObject (set_property name v ps))"

text \<open>\<open>ToNumeric\<close>: the Number or BigInt an operand stands for.\<close>

datatype js_numeric = NumericNumber number | NumericBigInt int

fun ToNumeric :: "js_primitive \<Rightarrow> js_error + js_numeric" where
  "ToNumeric Undefined = Inr (NumericNumber NaN)"
| "ToNumeric Null = Inr (NumericNumber (Finite False 0))"
| "ToNumeric (Boolean b) =
     Inr (NumericNumber (if b then number_of_int 1 else Finite False 0))"
| "ToNumeric (Number n) = Inr (NumericNumber n)"
| "ToNumeric (BigInt i) = Inr (NumericBigInt i)"
| "ToNumeric Symbol = Inl TypeError"

text \<open>
  The operators \<open>+\<close> and \<open>-\<close> of the two compound assignments, on operands that are
  not strings: both operands are converted, the left one first, and must then be of
  the same numeric type.
\<close>

datatype js_operator = Addition | Subtraction

fun apply_numeric :: "js_operator \<Rightarrow> js_numeric \<Rightarrow> js_numeric \<Rightarrow> js_error + js_primitive" where
  "apply_numeric Addition (NumericNumber a) (NumericNumber b) = Inr (Number (number_add a b))"
| "apply_numeric Subtraction (NumericNumber a) (NumericNumber b) =
     Inr (Number (number_subtract a b))"
| "apply_numeric Addition (NumericBigInt a) (NumericBigInt b) = Inr (BigInt (a + b))"
| "apply_numeric Subtraction (NumericBigInt a) (NumericBigInt b) = Inr (BigInt (a - b))"
| "apply_numeric op (NumericNumber a) (NumericBigInt b) = Inl TypeError"
| "apply_numeric op (NumericBigInt a) (NumericNumber b) = Inl TypeError"

definition apply_operator :: "js_operator \<Rightarrow> js_primitive \<Rightarrow> js_primitive
    \<Rightarrow> js_error + js_primitive" where
  "apply_operator op lval rval =
     (case ToNumeric lval of
        Inl e \<Rightarrow> Inl e
      | Inr lnum \<Rightarrow>
          (case ToNumeric rval of
             Inl e \<Rightarrow> Inl e
           | Inr rnum \<Rightarrow> apply_numeric op lnum rnum))"

text \<open>
  A compound assignment \<open>base.name op= rhs\<close>: the property is read, then the right-hand
  side is evaluated (\<open>rhs\<close> is its outcome), then the operator is applied and the
  result is written back. The first step that throws ends the evaluation.
\<close>

definition compound_assignment :: "js_operator \<Rightarrow> js_base \<Rightarrow> string
    \<Rightarrow> js_error + js_primitive \<Rightarrow> js_error + js_base" where
  "compound_assignment op base name rhs =
     (case GetValue base name of
        Inl e \<Rightarrow> Inl e
      | Inr lval \<Rightarrow>
          (case rhs of
             Inl e \<Rightarrow> Inl e
           | Inr rval \<Rightarrow>
               (case apply_operator op lval rval of
                  Inl e \<Rightarrow> Inl e
                | Inr v \<Rightarrow> PutValue base name v)))"

text \<open>
  The three case reducers as they run; the result is the state object after the
  assignment, or the error thrown.
\<close>

definition run_increment :: "js_base \<Rightarrow> js_error + js_base" where
  "run_increment state =
     compound_assignment Addition state ''value'' (Inr (Number (number_of_int 1)))"

definition run_decrement :: "js_base \<Rightarrow> js_error + js_base" where
  "run_decrement state =
     compound_assignment Subtraction state ''value'' (Inr (Number (number_of_int 1)))"

definition run_incrementByAmount :: "js_base \<Rightarrow> js_base \<Rightarrow> js_error + js_base" where
  "run_incrementByAmount state action =
     compound_assignment Addition state ''value'' (GetValue action ''payload'')"

text \<open>
  The objects that values of the declared types are at run time. The \<open>type\<close> tag of an
  action is a string, which no case reducer reads; the action object is kept to its
  \<open>payload\<close> property.
\<close>

definition object_of_state :: "CounterState \<Rightarrow> js_base" where
  "object_of_state state = BaseObject [(''value'', Number (value_field state))]"


section \<open>Arithmetic of the Number model\<close>

subsection \<open>Bit lengths\<close>

lemma bit_length_0 [simp]: "bit_length 0 = 0"
  by (simp add: bit_length.simps)

lemma bit_length_pos: "0 < n \<Longrightarrow> bit_length n = Suc (bit_length (n div 2))"
  by (subst bit_length.simps) simp

lemma bit_length_upper: "n < 2 ^ bit_length n"
proof (induction n rule: bit_length.induct)
  case (1 n)
  show ?case
  proof (cases "n = 0")
    case True
    then show ?thesis by simp
  next
    case False
    with 1 have "n div 2 < 2 ^ bit_length (n div 2)" by simp
    then have "n < 2 * 2 ^ bit_length (n div 2)" by linarith
    with False show ?thesis by (simp add: bit_length_pos)
  qed
qed

lemma bit_length_lower: "0 < n \<Longrightarrow> 2 ^ (bit_length n - 1) \<le> n"
proof (induction n rule: bit_length.induct)
  case (1 n)
  show ?case
  proof (cases "n div 2 = 0")
    case True
    with 1 show ?thesis by (simp add: bit_length_pos)
  next
    case False
    with 1 have "2 ^ (bit_length (n div 2) - 1) \<le> n div 2" by simp
    moreover from False have "bit_length (n div 2) = Suc (bit_length (n div 2) - 1)"
      by (simp add: bit_length_pos)
    ultimately have "2 ^ bit_length (n div 2) \<le> 2 * (n div 2)"
      by (metis power_Suc mult_le_mono2)
    then have "2 ^ bit_length (n div 2) \<le> n" by linarith
    with 1 show ?thesis by (simp add: bit_length_pos)
  qed
qed

lemma bit_length_gt: "2 ^ k \<le> m \<Longrightarrow> k < bit_length m"
proof -
  assume "2 ^ k \<le> m"
  with bit_length_upper [of m] have "(2::nat) ^ k < 2 ^ bit_length m" by linarith
  then show ?thesis using power_less_imp_less_exp [of "2::nat" k "bit_length m"] by simp
qed

lemma bit_length_le: "n < 2 ^ k \<Longrightarrow> bit_length n \<le> k"
proof (cases "n = 0")
  case True
  then show ?thesis by simp
next
  case False
  assume "n < 2 ^ k"
  moreover have "2 ^ (bit_length n - 1) \<le> n" using False bit_length_lower [of n] by simp
  ultimately have "(2::nat) ^ (bit_length n - 1) < 2 ^ k" by (rule le_less_trans [rotated])
  then have "bit_length n - 1 < k"
    using power_less_imp_less_exp [of "2::nat" "bit_length n - 1" k] by simp
  then show ?thesis by linarith
qed

lemma bit_length_eqI: "2 ^ k \<le> n \<Longrightarrow> n < 2 ^ Suc k \<Longrightarrow> bit_length n = Suc k"
proof -
  assume lo: "2 ^ k \<le> n" and hi: "n < 2 ^ Suc k"
  from lo have "k < bit_length n" by (rule bit_length_gt)
  moreover from hi have "bit_length n \<le> Suc k" by (rule bit_length_le)
  ultimately show ?thesis by linarith
qed

lemma bit_length_shift: "0 < n \<Longrightarrow> bit_length (n * 2 ^ c) = bit_length n + c"
proof -
  assume pos: "0 < n"
  then obtain k where k: "bit_length n = Suc k"
    by (auto simp: bit_length_pos)
  have "2 ^ k \<le> n" using bit_length_lower [OF pos] k by simp
  then have lo: "2 ^ (k + c) \<le> n * 2 ^ c" by (simp add: power_add)
  have "n < 2 ^ Suc k" using bit_length_upper [of n] k by simp
  then have "n * 2 ^ c < 2 ^ Suc k * 2 ^ c" by simp
  then have hi: "n * 2 ^ c < 2 ^ Suc (k + c)" by (simp add: power_add)
  from bit_length_eqI [OF lo hi] k show ?thesis by simp
qed

subsection \<open>Rounding\<close>

lemma round_magnitude_small: "m < 2 ^ 53 \<Longrightarrow> round_magnitude m = m"
  by (simp add: round_magnitude_def)

text \<open>A magnitude that already has at most 53 significant bits is not changed.\<close>

lemma round_magnitude_exact:
  assumes "m mod 2 ^ (bit_length m - 53) = 0"
  shows "round_magnitude m = m"
proof (cases "m < 2 ^ 53")
  case True
  then show ?thesis by (rule round_magnitude_small)
next
  case False
  define p where "p = bit_length m - 53"
  have r: "m mod 2 ^ p = 0" using assms by (simp add: p_def)
  have h: "\<not> (2::nat) ^ (p - 1) < 0" "(0::nat) \<noteq> 2 ^ (p - 1)" by simp_all
  have q: "m div 2 ^ p * 2 ^ p = m" using r by (simp add: mod_eq_0_iff_dvd)
  have "round_magnitude m = m div 2 ^ p * 2 ^ p"
    using False r h unfolding round_magnitude_def Let_def p_def [symmetric] by simp
  with q show ?thesis by simp
qed

lemma scaled_multiple:
  assumes lo: "2 ^ 52 \<le> q" and hi: "q \<le> 2 ^ 53"
  shows "(q * 2 ^ p) mod 2 ^ (bit_length (q * 2 ^ p) - 53) = (0::nat)"
proof (cases "q < 2 ^ 53")
  case True
  from lo have pos: "0 < q" by (metis less_le_trans zero_less_numeral zero_less_power)
  have "bit_length q = Suc 52" using lo True by (intro bit_length_eqI) simp_all
  then have "bit_length (q * 2 ^ p) - 53 = p" by (simp add: bit_length_shift [OF pos])
  then show ?thesis by simp
next
  case False
  with hi have q: "q = 2 ^ 53" by simp
  have "bit_length q = Suc 53" unfolding q by (intro bit_length_eqI) simp_all
  moreover have pos: "0 < q" unfolding q by simp
  ultimately have "bit_length (q * 2 ^ p) - 53 = Suc p" by (simp add: bit_length_shift [OF pos])
  moreover have "q * 2 ^ p = 2 ^ 52 * 2 ^ Suc p" unfolding q by simp
  ultimately show ?thesis by (metis mod_mult_self2_is_0)
qed

text \<open>The 53 leading bits of a magnitude of at least \<open>2 ^ 53\<close>.\<close>

lemma quotient_range:
  assumes "2 ^ 53 \<le> m"
  shows "2 ^ 52 \<le> m div 2 ^ (bit_length m - 53) \<and> m div 2 ^ (bit_length m - 53) < 2 ^ 53"
proof -
  define p where "p = bit_length m - 53"
  from assms have pos: "0 < m" by (metis less_le_trans zero_less_numeral zero_less_power)
  from assms have "53 < bit_length m" by (rule bit_length_gt)
  then have bl: "bit_length m = 53 + p" "bit_length m - 1 = 52 + p" by (simp_all add: p_def)
  have "2 ^ 52 * 2 ^ p \<le> m" using bit_length_lower [OF pos] by (simp add: bl power_add)
  then have lo: "2 ^ 52 \<le> m div 2 ^ p" by (simp add: less_eq_div_iff_mult_less_eq)
  have "m < 2 ^ 53 * 2 ^ p" using bit_length_upper [of m] by (simp add: bl power_add)
  then have hi: "m div 2 ^ p < 2 ^ 53" by (simp add: less_mult_imp_div_less)
  from lo hi show ?thesis by (simp add: p_def)
qed

text \<open>The result of rounding has at most 53 significant bits.\<close>

lemma round_magnitude_representable:
  "round_magnitude m < 2 ^ 53 \<or>
   round_magnitude m mod 2 ^ (bit_length (round_magnitude m) - 53) = 0"
proof (cases "m < 2 ^ 53")
  case True
  then show ?thesis by (simp add: round_magnitude_small)
next
  case False
  define p where "p = bit_length m - 53"
  define q where "q = m div 2 ^ p"
  from False quotient_range [of m] have q: "2 ^ 52 \<le> q" "q < 2 ^ 53"
    by (simp_all add: p_def q_def)
  then have q1: "2 ^ 52 \<le> q + 1" "q + 1 \<le> 2 ^ 53" by simp_all
  have "round_magnitude m = q * 2 ^ p \<or> round_magnitude m = (q + 1) * 2 ^ p"
    using False unfolding round_magnitude_def Let_def p_def [symmetric] q_def [symmetric]
    by simp
  then show ?thesis
    using scaled_multiple [of q p] scaled_multiple [OF q1, of p] q by auto
qed

text \<open>An integer of magnitude at most \<open>2 ^ 53\<close>, scaled by a power of two, is exact.\<close>

lemma round_magnitude_scaled:
  assumes "n \<le> 2 ^ 53"
  shows "round_magnitude (n * 2 ^ c) = n * 2 ^ c"
proof (cases "n = 0")
  case True
  then show ?thesis by (simp add: round_magnitude_small)
next
  case False
  then have pos: "0 < n" by simp
  have "(n * 2 ^ c) mod 2 ^ (bit_length (n * 2 ^ c) - 53) = 0"
  proof (cases "n < 2 ^ 53")
    case True
    then have "bit_length n \<le> 53" by (rule bit_length_le)
    then have "bit_length (n * 2 ^ c) - 53 \<le> c" by (simp add: bit_length_shift [OF pos])
    then have "(2::nat) ^ (bit_length (n * 2 ^ c) - 53) dvd 2 ^ c" by (rule le_imp_power_dvd)
    then show ?thesis by (simp add: mod_eq_0_iff_dvd)
  next
    case False
    with assms have "2 ^ 52 \<le> n" by simp
    from scaled_multiple [OF this assms] show ?thesis .
  qed
  then show ?thesis by (rule round_magnitude_exact)
qed

text \<open>Rounding commutes with scaling by a power of two.\<close>

lemma round_magnitude_shift:
  assumes "2 ^ 53 \<le> m"
  shows "round_magnitude (m * 2 ^ c) = round_magnitude m * 2 ^ c"
proof -
  define p where "p = bit_length m - 53"
  from assms have pos: "0 < m" by (metis less_le_trans zero_less_numeral zero_less_power)
  from assms have gt: "53 < bit_length m" by (rule bit_length_gt)
  have bl: "bit_length (m * 2 ^ c) - 53 = p + c"
    using gt by (simp add: bit_length_shift [OF pos] p_def)
  have h: "(2::nat) ^ (p + c - 1) = 2 ^ (p - 1) * 2 ^ c"
    using gt by (simp add: p_def power_add [symmetric])
  have d: "m * 2 ^ c div 2 ^ (p + c) = m div 2 ^ p"
    by (simp add: power_add)
  have r: "m * 2 ^ c mod 2 ^ (p + c) = (m mod 2 ^ p) * 2 ^ c"
    by (simp add: power_add)
  have "m \<le> m * 2 ^ c" by simp
  with assms have "2 ^ 53 \<le> m * 2 ^ c" by (rule le_trans)
  then have big: "\<not> m * 2 ^ c < 2 ^ 53" by simp
  have small: "\<not> m < 2 ^ 53" using assms by simp
  show ?thesis
    unfolding round_magnitude_def Let_def bl p_def [symmetric] d r h
    using big small by (simp add: power_add)
qed

lemma round_magnitude_units: "round_magnitude (n * 2 ^ c) = round_magnitude n * 2 ^ c"
proof (cases "n < 2 ^ 53")
  case True
  then show ?thesis by (simp add: round_magnitude_scaled round_magnitude_small)
next
  case False
  then show ?thesis by (simp add: round_magnitude_shift)
qed

text \<open>
  Two roundings at the first binade with spacing 2: \<open>2 ^ 53 + 1\<close> lies halfway
  between its neighbours and goes to the even one; \<open>2 ^ 53 + 2\<close> is exact.
\<close>

lemma round_magnitude_tie: "round_magnitude (2 ^ 53 + 1) = 2 ^ 53"
proof -
  have "bit_length (2 ^ 53 + 1) = Suc 53" by (rule bit_length_eqI) simp_all
  then show ?thesis by (simp add: round_magnitude_def)
qed

lemma round_magnitude_next: "round_magnitude (2 ^ 53 + 2) = 2 ^ 53 + 2"
proof -
  have "bit_length (2 ^ 53 + 2) = Suc 53" by (rule bit_length_eqI) simp_all
  then show ?thesis by (simp add: round_magnitude_def)
qed

subsection \<open>Conversion and addition\<close>

lemma nat_abs_scaled: "nat \<bar>v * 2 ^ c\<bar> = nat \<bar>v\<bar> * 2 ^ c"
  by (simp add: abs_mult nat_mult_distrib nat_power_eq)

text \<open>
  A nonzero whole number of ones is rounded as the integer it is, as long as the result
  stays below \<open>2 ^ 1024\<close>.
\<close>

lemma number_of_exact_units:
  assumes "v \<noteq> 0" and "round_magnitude (nat \<bar>v\<bar>) < 2 ^ 1024"
  shows "number_of_exact z (v * 2 ^ 1074) =
         Finite (v < 0) (round_magnitude (nat \<bar>v\<bar>) * 2 ^ 1074)"
proof -
  have "round_magnitude (nat \<bar>v\<bar>) * 2 ^ 1074 < 2 ^ 1024 * (2::nat) ^ 1074"
    using assms(2) by simp
  also have "\<dots> = overflow_threshold"
    unfolding overflow_threshold_def power_add [symmetric] by simp
  finally have t: "\<not> overflow_threshold \<le> round_magnitude (nat \<bar>v\<bar>) * 2 ^ 1074" by simp
  have s: "(v * 2 ^ 1074 < 0) = (v < 0)" by (simp add: mult_less_0_iff)
  have z: "v * 2 ^ 1074 \<noteq> 0" using assms(1) by simp
  show ?thesis
    unfolding number_of_exact_def Let_def nat_abs_scaled round_magnitude_units
    using t s z by simp
qed

lemma number_of_exact_scaled:
  assumes "\<bar>v\<bar> \<le> 2 ^ 53"
  shows "number_of_exact z (v * 2 ^ 1074) =
         Finite (if v = 0 then z else v < 0) (nat \<bar>v\<bar> * 2 ^ 1074)"
proof (cases "v = 0")
  case True
  then show ?thesis by (simp add: number_of_exact_def)
next
  case False
  have n: "nat \<bar>v\<bar> \<le> 2 ^ 53" using assms by (simp add: nat_le_iff)
  then have r: "round_magnitude (nat \<bar>v\<bar>) = nat \<bar>v\<bar>"
    using round_magnitude_scaled [of "nat \<bar>v\<bar>" 0] by simp
  have "(2::nat) ^ 53 < 2 ^ 1024" by (rule power_strict_increasing) simp_all
  with n have "round_magnitude (nat \<bar>v\<bar>) < 2 ^ 1024" unfolding r by (rule le_less_trans)
  from number_of_exact_units [OF False this] False show ?thesis by (simp only: r if_False)
qed

lemma number_of_int_exact:
  "\<bar>v\<bar> \<le> 2 ^ 53 \<Longrightarrow> number_of_int v = Finite (v < 0) (nat \<bar>v\<bar> * 2 ^ 1074)"
  unfolding number_of_int_def by (simp only: number_of_exact_scaled) auto

lemma number_of_int_inject:
  "\<bar>a\<bar> \<le> 2 ^ 53 \<Longrightarrow> \<bar>b\<bar> \<le> 2 ^ 53 \<Longrightarrow> number_of_int a = number_of_int b \<longleftrightarrow> a = b"
  by (auto simp: number_of_int_exact)

lemma exact_units_scaled: "exact_units (v < 0) (nat \<bar>v\<bar> * 2 ^ 1074) = v * 2 ^ 1074"
  by (simp add: exact_units_def nat_mult_distrib)

lemma exact_units_negated: "exact_units (\<not> v < 0) (nat \<bar>v\<bar> * 2 ^ 1074) = - v * 2 ^ 1074"
  by (simp add: exact_units_def nat_mult_distrib)

lemma number_add_of_int_exact:
  assumes a: "\<bar>a\<bar> \<le> 2 ^ 53" and b: "\<bar>b\<bar> \<le> 2 ^ 53"
  shows "number_add (number_of_int a) (number_of_int b) =
         number_of_exact (a < 0 \<and> b < 0) ((a + b) * 2 ^ 1074)"
  by (simp only: number_of_int_exact [OF a] number_of_int_exact [OF b] number_add.simps
      exact_units_scaled distrib_right)

text \<open>Sums and differences of integers are exact while everything stays within \<open>2 ^ 53\<close>.\<close>

lemma number_add_of_int:
  assumes a: "\<bar>a\<bar> \<le> 2 ^ 53" and b: "\<bar>b\<bar> \<le> 2 ^ 53" and ab: "\<bar>a + b\<bar> \<le> 2 ^ 53"
  shows "number_add (number_of_int a) (number_of_int b) = number_of_int (a + b)"
proof -
  have "number_add (number_of_int a) (number_of_int b) =
        number_of_exact (a < 0 \<and> b < 0) ((a + b) * 2 ^ 1074)"
    using a b by (rule number_add_of_int_exact)
  also have "\<dots> = Finite (if a + b = 0 then a < 0 \<and> b < 0 else a + b < 0)
                      (nat \<bar>a + b\<bar> * 2 ^ 1074)"
    by (rule number_of_exact_scaled [OF ab])
  also have "\<dots> = Finite (a + b < 0) (nat \<bar>a + b\<bar> * 2 ^ 1074)"
    by auto
  also have "\<dots> = number_of_int (a + b)"
    by (simp only: number_of_int_exact [OF ab])
  finally show ?thesis .
qed

lemma number_subtract_of_int:
  assumes a: "\<bar>a\<bar> \<le> 2 ^ 53" and b: "\<bar>b\<bar> \<le> 2 ^ 53" and ab: "\<bar>a - b\<bar> \<le> 2 ^ 53"
  shows "number_subtract (number_of_int a) (number_of_int b) = number_of_int (a - b)"
proof -
  have "number_subtract (number_of_int a) (number_of_int b) =
        number_of_exact (a < 0 \<and> \<not> b < 0) ((a - b) * 2 ^ 1074)"
    by (simp only: number_subtract_def number_of_int_exact [OF a] number_of_int_exact [OF b]
        number_unaryMinus.simps number_add.simps exact_units_scaled exact_units_negated
        left_diff_distrib minus_mult_left [symmetric] add_uminus_conv_diff)
  also have "\<dots> = Finite (if a - b = 0 then a < 0 \<and> \<not> b < 0 else a - b < 0)
                      (nat \<bar>a - b\<bar> * 2 ^ 1074)"
    by (rule number_of_exact_scaled [OF ab])
  also have "\<dots> = Finite (a - b < 0) (nat \<bar>a - b\<bar> * 2 ^ 1074)"
    by auto
  also have "\<dots> = number_of_int (a - b)"
    by (simp only: number_of_int_exact [OF ab])
  finally show ?thesis .
qed

text \<open>Adding one to \<open>2 ^ 53\<close> is absorbed; adding two is exact.\<close>

lemma number_add_tie:
  "number_add (number_of_int (2 ^ 53)) (number_of_int 1) = number_of_int (2 ^ 53)"
proof -
  define k :: int where "k = 2 ^ 53"
  have k: "\<bar>k\<bar> \<le> 2 ^ 53" "nat \<bar>k + 1\<bar> = 2 ^ 53 + 1" "k + 1 \<noteq> 0" "(k + 1 < 0) = (k < 0)"
    "nat \<bar>k\<bar> = 2 ^ 53"
    by (simp_all add: k_def)
  have "number_add (number_of_int k) (number_of_int 1) =
        number_of_exact (k < 0 \<and> (1::int) < 0) ((k + 1) * 2 ^ 1074)"
    using k(1) by (rule number_add_of_int_exact) simp
  also have "\<dots> = Finite (k + 1 < 0) (round_magnitude (nat \<bar>k + 1\<bar>) * 2 ^ 1074)"
    by (rule number_of_exact_units) (simp_all only: k round_magnitude_tie, simp_all)
  also have "\<dots> = Finite (k < 0) (nat \<bar>k\<bar> * 2 ^ 1074)"
    by (simp only: k round_magnitude_tie)
  also have "\<dots> = number_of_int k"
    by (simp only: number_of_int_exact [OF k(1)])
  finally show ?thesis unfolding k_def .
qed

lemma number_add_next:
  "number_add (number_of_int (2 ^ 53)) (number_of_int 2) =
   Finite False ((2 ^ 53 + 2) * 2 ^ 1074)"
proof -
  define k :: int where "k = 2 ^ 53"
  have k: "\<bar>k\<bar> \<le> 2 ^ 53" "nat \<bar>k + 2\<bar> = 2 ^ 53 + 2" "k + 2 \<noteq> 0" "(k + 2 < 0) = False"
    by (simp_all add: k_def)
  have "number_add (number_of_int k) (number_of_int 2) =
        number_of_exact (k < 0 \<and> (2::int) < 0) ((k + 2) * 2 ^ 1074)"
    using k(1) by (rule number_add_of_int_exact) simp
  also have "\<dots> = Finite (k + 2 < 0) (round_magnitude (nat \<bar>k + 2\<bar>) * 2 ^ 1074)"
    by (rule number_of_exact_units) (simp_all only: k round_magnitude_next, simp_all)
  also have "\<dots> = Finite False ((2 ^ 53 + 2) * 2 ^ 1074)"
    by (simp only: k round_magnitude_next)
  finally show ?thesis unfolding k_def .
qed

subsection \<open>Every result is a binary64 value\<close>

lemma is_binary64_number_of_exact: "is_binary64 (number_of_exact z k)"
  using round_magnitude_representable [of "nat \<bar>k\<bar>"]
  by (auto simp: number_of_exact_def Let_def overflow_threshold_def)

lemma is_binary64_number_add: "is_binary64 (number_add x y)"
  by (cases x; cases y) (simp_all add: is_binary64_number_of_exact)

lemma is_binary64_number_subtract: "is_binary64 (number_subtract x y)"
  by (simp add: number_subtract_def is_binary64_number_add)

section \<open>Properties of the linter configuration\<close>

text \<open>
  Claim C3: the \<open>extends\<close> field of the linter configuration is exactly the list of the
  eight named rule sets react-app, react-app/jest, plugin:react/recommended,
  eslint:recommended, plugin:@typescript-eslint/eslint-recommended,
  plugin:@typescript-eslint/recommended, google and prettier, in that order.
\<close>

theorem config_extends_fixed:
  "config_extends = Some (JArr
     [JStr ''react-app'',
      JStr ''react-app/jest'',
      JStr ''plugin:react/recommended'',
      JStr ''eslint:recommended'',
      JStr ''plugin:@typescript-eslint/eslint-recommended'',
      JStr ''plugin:@typescript-eslint/recommended'',
      JStr ''google'',
      JStr ''prettier''])"
  by (simp add: config_extends_def property_def module_exports_def)

text \<open>The three values used in the \<open>rules\<close> object are read as three different severities.\<close>

lemma rule_severity_values:
  "rule_severity (JStr ''off'') = Some Off"
  "rule_severity (JNum (number_of_int 1)) = Some Warning"
  "rule_severity (JNum (number_of_int 2)) = Some Error"
  using number_of_int_inject [of 2 1] by (simp_all add: rule_severity_def)

lemma config_rules_entries:
  "config_rules =
     [(''react/react-in-jsx-scope'', JStr ''off''),
      (''require-jsdoc'', JStr ''off''),
      (''no-console'', JNum (number_of_int 1)),
      (''prettier/prettier'', JNum (number_of_int 2)),
      (''linebreak-style'', JStr ''off'')]"
  by (simp add: config_rules_def property_def module_exports_def)

text \<open>
  Claim C2, as amended: the \<open>rules\<close> object of the linter configuration has exactly five
  entries. Three of them disable a rule (react/react-in-jsx-scope, require-jsdoc and
  linebreak-style), one sets no-console to warning severity and one sets
  prettier/prettier to error severity.
\<close>

theorem config_rules_overrides:
  "rules_with Off = [''react/react-in-jsx-scope'', ''require-jsdoc'', ''linebreak-style''] \<and>
   rules_with Warning = [''no-console''] \<and>
   rules_with Error = [''prettier/prettier''] \<and>
   length config_rules = 5"
  by (simp add: rules_with_def config_rules_entries rule_severity_values)

text \<open>
  Claim C2, as stated, fails: the \<open>rules\<close> object does not consist of one disabled rule,
  one rule at error severity and one at warning severity, since three rules are disabled.
\<close>

theorem config_rules_not_single_disable:
  "\<not> (length (rules_with Off) = 1 \<and>
      length (rules_with Error) = 1 \<and>
      length (rules_with Warning) = 1 \<and>
      length config_rules = 3)"
  by (simp add: rules_with_def config_rules_entries rule_severity_values)



section \<open>Properties of the counter slice\<close>



text \<open>
  The steps that can throw do throw on values outside the declared types: a state that
  is \<open>undefined\<close>, a \<open>value\<close> that is a BigInt or a Symbol, an action that is \<open>null\<close>.
\<close>

lemma run_outside_types_throws:
  "run_increment BaseUndefined = Inl TypeError"
  "run_increment (BaseObject [(''value'', BigInt 1)]) = Inl TypeError"
  "run_decrement (BaseObject [(''value'', Symbol)]) = Inl TypeError"
  "run_incrementByAmount (object_of_state state) BaseNull = Inl TypeError"
  by (simp_all add: run_increment_def run_decrement_def run_incrementByAmount_def
      compound_assignment_def apply_operator_def object_of_state_def)


text \<open>The value a case reducer returns is again a value of the binary64 format.\<close>

lemma case_reducers_binary64:
  "is_binary64 (value_field (increment state)) \<and>
   is_binary64 (value_field (decrement state)) \<and>
   is_binary64 (value_field (incrementByAmount state action))"
  by (simp add: increment_def decrement_def incrementByAmount_def
      is_binary64_number_add is_binary64_number_subtract)

text \<open>
  Claim C8: for every counter state, incrementByAmount with payload \<open>1\<close> yields exactly
  the state that increment yields.
\<close>

theorem incrementByAmount_one:
  "incrementByAmount state \<lparr>type_field = t, payload = number_of_int 1\<rparr> = increment state"
  by (simp add: incrementByAmount_def increment_def)

text \<open>
  At the negative zero, increment followed by decrement gives the positive zero: the two
  zeros compare equal in the language, but they are different Numbers.
\<close>

lemma number_add_negative_zero:
  assumes "\<bar>v\<bar> \<le> 2 ^ 53"
  shows "number_add (Finite True 0) (number_of_int v) = number_of_exact (v < 0) (v * 2 ^ 1074)"
proof -
  have "number_add (Finite True 0) (number_of_int v) =
        number_of_exact (True \<and> v < 0) (exact_units True 0 + v * 2 ^ 1074)"
    by (simp only: number_of_int_exact [OF assms] number_add.simps exact_units_scaled)
  then show ?thesis by (simp add: exact_units_def)
qed

lemma decrement_increment_negative_zero:
  "decrement (increment \<lparr>value_field = Finite True 0\<rparr>) = \<lparr>value_field = Finite False 0\<rparr>"
proof -
  have 1: "number_add (Finite True 0) (number_of_int 1) = number_of_int 1"
    using number_add_negative_zero [of 1] by (simp add: number_of_int_def)
  have 2: "number_subtract (number_of_int 1) (number_of_int 1) = number_of_int 0"
    using number_subtract_of_int [of 1 1] by simp
  have 3: "number_of_int 0 = Finite False 0"
    by (simp add: number_of_int_def number_of_exact_def)
  show ?thesis by (simp add: increment_def decrement_def 1 2 3)
qed

text \<open>
  Claim C7, as amended: for every counter state whose \<open>value\<close> is the Number of an
  integer \<open>v\<close> with \<open>- 2 ^ 53 \<le> v < 2 ^ 53\<close>, a zero being the positive zero, increment
  followed by decrement returns the state unchanged. The negative zero is not the
  Number of any integer \<open>v\<close>, so the state whose \<open>value\<close> is \<open>-0\<close> is left out.
\<close>

theorem decrement_increment_safe:
  assumes s: "value_field state = number_of_int v"
    and lo: "- (2 ^ 53) \<le> v" and hi: "v < 2 ^ 53"
  shows "decrement (increment state) = state"
proof -
  have "number_add (number_of_int v) (number_of_int 1) = number_of_int (v + 1)"
    using lo hi by (intro number_add_of_int) simp_all
  moreover have "number_subtract (number_of_int (v + 1)) (number_of_int 1) = number_of_int v"
    using number_subtract_of_int [of "v + 1" 1] lo hi by simp
  ultimately show ?thesis using s by (simp add: increment_def decrement_def)
qed

theorem decrement_increment_safe_witness:
  "value_field \<lparr>value_field = number_of_int 41\<rparr> = number_of_int 41 \<and>
   - (2 ^ 53) \<le> (41::int) \<and> (41::int) < 2 ^ 53 \<and>
   decrement (increment \<lparr>value_field = number_of_int 41\<rparr>) = \<lparr>value_field = number_of_int 41\<rparr>"
  using decrement_increment_safe [of "\<lparr>value_field = number_of_int 41\<rparr>" 41] by simp

text \<open>
  Claim C7, as stated, fails at the state whose \<open>value\<close> is \<open>2 ^ 53\<close>
  (9007199254740992): adding one is absorbed by rounding, so increment leaves the value at
  \<open>2 ^ 53\<close>, and decrement then gives \<open>2 ^ 53 - 1\<close>.
\<close>

theorem decrement_increment_not_inverse:
  "decrement (increment \<lparr>value_field = number_of_int (2 ^ 53)\<rparr>)
   \<noteq> \<lparr>value_field = number_of_int (2 ^ 53)\<rparr>"
proof -
  define k :: int where "k = 2 ^ 53"
  have tie: "number_add (number_of_int k) (number_of_int 1) = number_of_int k"
    unfolding k_def by (rule number_add_tie)
  have sub: "number_subtract (number_of_int k) (number_of_int 1) = number_of_int (k - 1)"
    unfolding k_def by (rule number_subtract_of_int) simp_all
  have ne: "number_of_int (k - 1) \<noteq> number_of_int k"
    unfolding k_def using number_of_int_inject [of "2 ^ 53 - 1" "2 ^ 53"] by simp
  have "decrement (increment \<lparr>value_field = number_of_int k\<rparr>)
        \<noteq> \<lparr>value_field = number_of_int k\<rparr>"
    by (simp add: increment_def decrement_def tie sub ne)
  then show ?thesis unfolding k_def .
qed

text \<open>
  Claim C9, as amended: when the \<open>value\<close> of the state and the two payloads are integers
  \<open>v\<close>, \<open>x\<close> and \<open>y\<close>, and none of \<open>v\<close>, \<open>x\<close>, \<open>y\<close>, \<open>v + x\<close>, \<open>x + y\<close> and
  \<open>v + x + y\<close> exceeds \<open>2 ^ 53\<close> in magnitude, incrementByAmount with payload \<open>x\<close> and then
  with payload \<open>y\<close> yields the same state as incrementByAmount once with the payload
  \<open>x + y\<close>.
\<close>

theorem incrementByAmount_additive_safe:
  assumes s: "value_field state = number_of_int v"
    and a: "payload a = number_of_int x" and b: "payload b = number_of_int y"
    and bounds: "\<bar>v\<bar> \<le> 2 ^ 53" "\<bar>x\<bar> \<le> 2 ^ 53" "\<bar>y\<bar> \<le> 2 ^ 53"
      "\<bar>v + x\<bar> \<le> 2 ^ 53" "\<bar>x + y\<bar> \<le> 2 ^ 53" "\<bar>v + x + y\<bar> \<le> 2 ^ 53"
  shows "incrementByAmount (incrementByAmount state a) b =
         incrementByAmount state (a\<lparr>payload := number_add (payload a) (payload b)\<rparr>)"
proof -
  have 1: "number_add (number_of_int v) (number_of_int x) = number_of_int (v + x)"
    using bounds by (intro number_add_of_int)
  have 2: "number_add (number_of_int (v + x)) (number_of_int y) = number_of_int (v + x + y)"
    using bounds by (intro number_add_of_int)
  have 3: "number_add (number_of_int x) (number_of_int y) = number_of_int (x + y)"
    using bounds by (intro number_add_of_int)
  have 4: "number_add (number_of_int v) (number_of_int (x + y)) = number_of_int (v + x + y)"
    using bounds number_add_of_int [of v "x + y"] by (simp add: add.assoc)
  show ?thesis by (simp add: incrementByAmount_def s a b 1 2 3 4)
qed

theorem incrementByAmount_additive_safe_witness:
  "value_field \<lparr>value_field = number_of_int 10\<rparr> = number_of_int 10 \<and>
   payload \<lparr>type_field = ''counter/incrementByAmount'', payload = number_of_int 3\<rparr>
     = number_of_int 3 \<and>
   payload \<lparr>type_field = ''counter/incrementByAmount'', payload = number_of_int (- 5)\<rparr>
     = number_of_int (- 5) \<and>
   \<bar>10 :: int\<bar> \<le> 2 ^ 53 \<and> \<bar>3 :: int\<bar> \<le> 2 ^ 53 \<and> \<bar>- 5 :: int\<bar> \<le> 2 ^ 53 \<and>
   \<bar>10 + 3 :: int\<bar> \<le> 2 ^ 53 \<and> \<bar>3 + - 5 :: int\<bar> \<le> 2 ^ 53 \<and> \<bar>10 + 3 + - 5 :: int\<bar> \<le> 2 ^ 53 \<and>
   incrementByAmount
     (incrementByAmount \<lparr>value_field = number_of_int 10\<rparr>
        \<lparr>type_field = ''counter/incrementByAmount'', payload = number_of_int 3\<rparr>)
     \<lparr>type_field = ''counter/incrementByAmount'', payload = number_of_int (- 5)\<rparr>
   = incrementByAmount \<lparr>value_field = number_of_int 10\<rparr>
       (\<lparr>type_field = ''counter/incrementByAmount'', payload = number_of_int 3\<rparr>
          \<lparr>payload := number_add (number_of_int 3) (number_of_int (- 5))\<rparr>)"
  using incrementByAmount_additive_safe
    [of "\<lparr>value_field = number_of_int 10\<rparr>" 10
        "\<lparr>type_field = ''counter/incrementByAmount'', payload = number_of_int 3\<rparr>" 3
        "\<lparr>type_field = ''counter/incrementByAmount'', payload = number_of_int (- 5)\<rparr>" "- 5"]
  by simp

text \<open>
  Claim C9, as stated, fails at the state whose \<open>value\<close> is \<open>2 ^ 53\<close> with both payloads
  \<open>1\<close>: each single step is absorbed by rounding and leaves \<open>2 ^ 53\<close>, while one step
  with the payload \<open>1 + 1 = 2\<close> gives \<open>2 ^ 53 + 2\<close>.
\<close>

theorem incrementByAmount_not_additive:
  "incrementByAmount
     (incrementByAmount \<lparr>value_field = number_of_int (2 ^ 53)\<rparr>
        \<lparr>type_field = ''counter/incrementByAmount'', payload = number_of_int 1\<rparr>)
     \<lparr>type_field = ''counter/incrementByAmount'', payload = number_of_int 1\<rparr>
   \<noteq> incrementByAmount \<lparr>value_field = number_of_int (2 ^ 53)\<rparr>
       (\<lparr>type_field = ''counter/incrementByAmount'', payload = number_of_int 1\<rparr>
          \<lparr>payload := number_add
             (payload \<lparr>type_field = ''counter/incrementByAmount'', payload = number_of_int 1\<rparr>)
             (payload \<lparr>type_field = ''counter/incrementByAmount'', payload = number_of_int 1\<rparr>)\<rparr>)"
proof -
  define k :: int where "k = 2 ^ 53"
  define one :: "number PayloadAction"
    where "one = \<lparr>type_field = ''counter/incrementByAmount'', payload = number_of_int 1\<rparr>"
  have p: "payload one = number_of_int 1" by (simp add: one_def)
  have sum: "number_add (number_of_int 1) (number_of_int 1) = number_of_int 2"
    using number_add_of_int [of 1 1] by simp
  have tie: "number_add (number_of_int k) (number_of_int 1) = number_of_int k"
    unfolding k_def by (rule number_add_tie)
  have nxt: "number_add (number_of_int k) (number_of_int 2) =
             Finite False ((2 ^ 53 + 2) * 2 ^ 1074)"
    unfolding k_def by (rule number_add_next)
  have kk: "number_of_int k = Finite False (2 ^ 53 * 2 ^ 1074)"
    unfolding k_def using number_of_int_exact [of "2 ^ 53"] by simp
  have ne: "number_of_int k \<noteq> Finite False ((2 ^ 53 + 2) * 2 ^ 1074)"
    unfolding kk by simp
  have l: "value_field
             (incrementByAmount (incrementByAmount \<lparr>value_field = number_of_int k\<rparr> one) one)
           = number_of_int k"
    by (simp add: incrementByAmount_def p tie)
  have r: "value_field
             (incrementByAmount \<lparr>value_field = number_of_int k\<rparr>
                (one\<lparr>payload := number_add (payload one) (payload one)\<rparr>))
           = Finite False ((2 ^ 53 + 2) * 2 ^ 1074)"
    unfolding nxt [symmetric] by (simp add: incrementByAmount_def p sum)
  have "incrementByAmount (incrementByAmount \<lparr>value_field = number_of_int k\<rparr> one) one
        \<noteq> incrementByAmount \<lparr>value_field = number_of_int k\<rparr>
            (one\<lparr>payload := number_add (payload one) (payload one)\<rparr>)"
    using l r ne by metis
  then show ?thesis unfolding k_def one_def .
qed

end
